theory Spec2Isabelle
  imports Main "HOL-Library.AList"
begin

section \<open>The notebook doc/Geometries.ipynb\<close>

text \<open>
  The repository is one Jupyter notebook of nine code cells. Each code cell is embedded as
  a function from the outside world (the local files and the cartographic feature data) and
  the state of the Python kernel (the names bound so far) to either the exception the cell
  raises or the new kernel state with the value the cell displays. The geometries are
  opaque to the notebook, so their type is a parameter \<open>'g\<close>.
\<close>

subsection \<open>Exceptions\<close>

datatype error =
    NameError string
  | UsageError string
  | IndexError
  | IOError string
  | FormatError string
  | KeyError string

text \<open>
  Sequencing of two computations that may raise: the first exception ends the evaluation.
\<close>

fun ebind :: "error + 'a \<Rightarrow> ('a \<Rightarrow> error + 'b) \<Rightarrow> error + 'b" where
  "ebind (Inl e) f = Inl e"
| "ebind (Inr x) f = f x"

subsection \<open>Values handled by the notebook\<close>

text \<open>The three features of \<open>cartopy.feature\<close> the notebook names, and the one CRS.\<close>

datatype feature = COASTLINE | BORDERS | LAND

datatype crs = PlateCarree

text \<open>
  A record of a shapefile: a geometry and its attributes (a dict of strings). A table: the
  column names and the rows, each row a dict from column name to cell text.
\<close>

type_synonym attrs = "(string \<times> string) list"

datatype 'g shp_record = Record (geometry: 'g) (attributes: attrs)

datatype table = Table (columns: "string list") (rows: "attrs list")

datatype dataset = Dataset (data: table)

datatype 'g reader = Reader_of "'g shp_record list"

text \<open>
  Keys of an \<open>NdOverlay\<close>: an integer index, or the values of the index dimensions.
  The elements of the plotting libraries: a \<open>Shape\<close> carries its geometry, its CRS, its
  group and the value (level) it is coloured by.
\<close>

datatype key = Index nat | Values "string option list"

datatype 'g element =
    Feature feature
  | Shape 'g crs "string option" "string option"
  | Overlay "'g element list"
  | Relabel string "'g element"
  | Layout "'g element list"
  | NdOverlay "(key \<times> 'g element) list"

text \<open>What a cell displays: the value of its last expression.\<close>

datatype 'g display =
    Svg 'g
  | Plot "'g element"
  | Record_repr "'g shp_record"
  | Frame table
  | Styled string "'g display"

subsection \<open>The outside world and the kernel\<close>

datatype 'g asset = Shapefile "'g shp_record list" | CsvFile table

record 'g world =
  files :: "string \<Rightarrow> 'g asset option"
  natural_earth :: "feature \<Rightarrow> 'g list"

record 'g kernel =
  modules :: "string list"
  extension :: bool
  options :: "string list"
  coasts :: "'g element option"
  borders :: "'g element option"
  land :: "'g element option"
  land_geoms :: "'g list option"
  shapefile :: "string option"
  shapes :: "'g reader option"
  referendum :: "dataset option"

definition fresh_kernel :: "'g kernel" where
  "fresh_kernel =
     \<lparr>modules = [], extension = False, options = [], coasts = None, borders = None,
      land = None, land_geoms = None, shapefile = None, shapes = None, referendum = None\<rparr>"

subsection \<open>Python and IPython\<close>

text \<open>\<open>import m as name\<close> binds \<open>name\<close>; reading a name that is not bound raises.\<close>

definition import_as :: "string \<Rightarrow> 'g kernel \<Rightarrow> 'g kernel" where
  "import_as name k = k\<lparr>modules := name # modules k\<rparr>"

fun lookup_names :: "string list \<Rightarrow> 'g kernel \<Rightarrow> error + unit" where
  "lookup_names [] k = Inr ()"
| "lookup_names (n # ns) k =
     (if n \<in> set (modules k) then lookup_names ns k else Inl (NameError n))"

definition lookup_var :: "string \<Rightarrow> 'a option \<Rightarrow> error + 'a" where
  "lookup_var name v = (case v of None \<Rightarrow> Inl (NameError name) | Some x \<Rightarrow> Inr x)"

text \<open>
  The magics \<open>%output\<close>, \<open>%opts\<close> and \<open>%%opts\<close> exist once \<open>hv.notebook_extension()\<close>
  has run. A line magic changes the options of the kernel, a cell magic those of the
  cell's own output.
\<close>

definition line_magic :: "string \<Rightarrow> 'g kernel \<Rightarrow> error + 'g kernel" where
  "line_magic line k =
     (if extension k then Inr (k\<lparr>options := options k @ [line]\<rparr>) else Inl (UsageError line))"

definition cell_magic :: "string \<Rightarrow> 'g kernel \<Rightarrow> error + unit" where
  "cell_magic line k = (if extension k then Inr () else Inl (UsageError line))"

text \<open>\<open>xs[i]\<close>: a negative index counts from the end, an index out of range raises.\<close>

definition py_getitem :: "'a list \<Rightarrow> int \<Rightarrow> error + 'a" where
  "py_getitem xs i =
     (if 0 \<le> i \<and> i < int (length xs) then Inr (xs ! nat i)
      else if i < 0 \<and> - int (length xs) \<le> i then Inr (xs ! nat (int (length xs) + i))
      else Inl IndexError)"

text \<open>\<open>enumerate(xs)\<close>, as the list of its pairs.\<close>

definition py_enumerate :: "'a list \<Rightarrow> (nat \<times> 'a) list" where
  "py_enumerate xs = zip [0..<length xs] xs"

subsection \<open>The libraries the notebook calls\<close>

text \<open>
  The notebook calls pandas, holoviews, cartopy and geoviews. Their functions are modelled
  by what the notebook needs of them: what they return for the files and the feature data
  of the world, and when they fail. The world is an input of every call; what a library
  may write to the file system or keep in caches is outside the model.
\<close>

text \<open>
  Modelled from the spec: the code of the libraries is not under src/. Section 6 names
  "a cartographic feature/geometry provider supplying coastline, border, and land
  geometries": \<open>cf.LAND.geometries()\<close> yields the geometries the world holds for the
  feature.
\<close>

definition geometries :: "'g world \<Rightarrow> feature \<Rightarrow> 'g list" where
  "geometries w f = natural_earth w f"

text \<open>
  Modelled from the spec: section 6 names "a shapefile reader capable of yielding
  geometry+attribute records", and section 7 makes a missing file a failure of the library.
  \<open>cartopy.io.shapereader.Reader(path)\<close> opens the file, \<open>records()\<close> yields its records.
  The reader is taken to yield all the records of the file at every call of \<open>records()\<close>;
  the state of the iterators of the library is not part of the model.
\<close>

definition Reader :: "'g world \<Rightarrow> string \<Rightarrow> error + 'g reader" where
  "Reader w path =
     (case files w path of
        None \<Rightarrow> Inl (IOError path)
      | Some (Shapefile rs) \<Rightarrow> Inr (Reader_of rs)
      | Some (CsvFile t) \<Rightarrow> Inl (FormatError path))"

fun records :: "'g reader \<Rightarrow> 'g shp_record list" where
  "records (Reader_of rs) = rs"

text \<open>
  Modelled from the spec: section 6 names "a tabular data library for loading and indexing
  a CSV dataset". \<open>pd.read_csv(path)\<close> loads the table, \<open>head()\<close> is its first five rows,
  \<open>hv.Dataset\<close> wraps it.
\<close>

definition read_csv :: "'g world \<Rightarrow> string \<Rightarrow> error + table" where
  "read_csv w path =
     (case files w path of
        None \<Rightarrow> Inl (IOError path)
      | Some (CsvFile t) \<Rightarrow> Inr t
      | Some (Shapefile rs) \<Rightarrow> Inl (FormatError path))"

definition head :: "table \<Rightarrow> table" where
  "head t = Table (columns t) (take 5 (rows t))"

text \<open>
  Modelled from the spec: the composition of elements by the plotting library (section 4,
  "feature overlay"): \<open>a * b\<close> overlays, \<open>a + b\<close> lays out side by side.
\<close>

definition hv_mul :: "'g element \<Rightarrow> 'g element \<Rightarrow> 'g element" where
  "hv_mul a b = Overlay [a, b]"

fun layout_items :: "'g element \<Rightarrow> 'g element list" where
  "layout_items (Layout xs) = xs"
| "layout_items e = [e]"

definition hv_add :: "'g element \<Rightarrow> 'g element \<Rightarrow> 'g element" where
  "hv_add a b = Layout (layout_items a @ layout_items b)"

text \<open>
  Modelled from the spec: \<open>gv.Feature\<close> and \<open>gv.Shape\<close> are the "wrapper types over external
  feature/geometry objects" of section 6 (geoviews code that is not under src/).
\<close>

definition gv_Feature :: "feature \<Rightarrow> 'g element" where
  "gv_Feature f = Feature f"

definition gv_Shape :: "'g \<Rightarrow> crs \<Rightarrow> string option \<Rightarrow> 'g element" where
  "gv_Shape g c grp = Shape g c grp None"

text \<open>
  Modelled from the spec: \<open>gv.Shape.from_shapefile\<close> is geoviews code that is not under
  src/ ("shapefile loading", section 4). It reads the shapefile and wraps every geometry in
  a \<open>Shape\<close>, indexed by an integer.
\<close>

definition from_shapefile :: "'g world \<Rightarrow> string \<Rightarrow> crs \<Rightarrow> error + 'g element" where
  "from_shapefile w path c =
     ebind (Reader w path) (\<lambda>rd.
       Inr (NdOverlay (map (\<lambda>(i, r). (Index i, gv_Shape (geometry r) c None))
                           (py_enumerate (records rd)))))"

text \<open>
  Modelled from the spec: \<open>gv.Shape.from_records\<close> is geoviews code that is not under src/
  ("record/dataset merging by key, choropleth coloring by a named value column", section 4;
  "joined on a shared attribute", section 6; a mismatched join key is a failure, section 7).
  The key \<open>on\<close> has to name a column of the dataset and an attribute of every record. A
  record is merged with the first row of the dataset that has the record's value in the
  column \<open>on\<close>: the shape takes its level from the column \<open>val\<close> of that row and its key
  from the columns \<open>index\<close>. A record that no row matches keeps its shape, without a level.
\<close>

definition select_rows :: "dataset \<Rightarrow> string \<Rightarrow> string \<Rightarrow> attrs list" where
  "select_rows ds col v = filter (\<lambda>row. map_of row col = Some v) (rows (data ds))"

definition merge_record ::
  "dataset \<Rightarrow> string \<Rightarrow> string \<Rightarrow> string list \<Rightarrow> crs \<Rightarrow> 'g shp_record \<Rightarrow> error + key \<times> 'g element"
where
  "merge_record ds on val index c r =
     (case map_of (attributes r) on of
        None \<Rightarrow> Inl (KeyError on)
      | Some v \<Rightarrow>
          (case select_rows ds on v of
             [] \<Rightarrow> Inr (Values (map (\<lambda>d. None) index), Shape (geometry r) c None None)
           | row # rest \<Rightarrow>
               Inr (Values (map (map_of row) index),
                    Shape (geometry r) c None (map_of row val))))"

fun merge_records ::
  "dataset \<Rightarrow> string \<Rightarrow> string \<Rightarrow> string list \<Rightarrow> crs \<Rightarrow> 'g shp_record list \<Rightarrow>
   error + (key \<times> 'g element) list"
where
  "merge_records ds on val index c [] = Inr []"
| "merge_records ds on val index c (r # rs) =
     ebind (merge_record ds on val index c r) (\<lambda>item.
     ebind (merge_records ds on val index c rs) (\<lambda>items. Inr (item # items)))"

definition from_records ::
  "'g shp_record list \<Rightarrow> dataset \<Rightarrow> string \<Rightarrow> string \<Rightarrow> string list \<Rightarrow> crs \<Rightarrow> error + 'g element"
where
  "from_records recs ds on val index c =
     (if on \<notin> set (columns (data ds)) then Inl (KeyError on)
      else ebind (merge_records ds on val index c recs) (\<lambda>items. Inr (NdOverlay items)))"

subsection \<open>The code cells\<close>

type_synonym 'g cell = "'g world \<Rightarrow> 'g kernel \<Rightarrow> error + 'g kernel \<times> 'g display option"

text \<open>
  \<^verbatim>\<open>import pandas as pd\<close>, \<^verbatim>\<open>import numpy as np\<close>, \<^verbatim>\<open>import holoviews as hv\<close>,
  \<^verbatim>\<open>import geoviews as gv\<close>, \<^verbatim>\<open>import cartopy\<close>, \<^verbatim>\<open>from cartopy import crs as ccrs\<close>,
  \<^verbatim>\<open>from cartopy import feature as cf\<close>, \<^verbatim>\<open>hv.notebook_extension()\<close>, \<^verbatim>\<open>%output dpi=120\<close>
\<close>

definition cell1 :: "'g cell" where
  "cell1 w k =
     (let k = import_as ''pd'' k;
          k = import_as ''np'' k;
          k = import_as ''hv'' k;
          k = import_as ''gv'' k;
          k = import_as ''cartopy'' k;
          k = import_as ''ccrs'' k;
          k = import_as ''cf'' k
      in ebind (lookup_names [''hv''] k) (\<lambda>u.
         let k = k\<lparr>extension := True\<rparr>
         in ebind (line_magic ''output dpi=120'' k) (\<lambda>k. Inr (k, None))))"

text \<open>
  \<^verbatim>\<open>%opts Overlay [show_grid=False] Layout [hspace=0.2 sublabel_position=(-.15, .7)]\<close>,
  \<^verbatim>\<open>coasts  = gv.Feature(cf.COASTLINE)\<close>, \<^verbatim>\<open>borders = gv.Feature(cf.BORDERS)\<close>,
  \<^verbatim>\<open>land   = gv.Feature(cf.LAND)\<close>,
  \<^verbatim>\<open>land + borders + (land*borders).relabel("Overlay")\<close>
\<close>

definition cell2 :: "'g cell" where
  "cell2 w k =
     ebind (line_magic
        ''opts Overlay [show_grid=False] Layout [hspace=0.2 sublabel_position=(-.15, .7)]'' k)
       (\<lambda>k.
     ebind (lookup_names [''gv'', ''cf''] k) (\<lambda>u.
     let c = gv_Feature COASTLINE; k = k\<lparr>coasts := Some c\<rparr> in
     ebind (lookup_names [''gv'', ''cf''] k) (\<lambda>u.
     let b = gv_Feature BORDERS; k = k\<lparr>borders := Some b\<rparr> in
     ebind (lookup_names [''gv'', ''cf''] k) (\<lambda>u.
     let l = gv_Feature LAND; k = k\<lparr>land := Some l\<rparr> in
     Inr (k, Some (Plot (hv_add (hv_add l b) (Relabel ''Overlay'' (hv_mul l b)))))))))"

text \<open>\<^verbatim>\<open>land_geoms = list(cf.LAND.geometries())\<close>, \<^verbatim>\<open>land_geoms[21]\<close>\<close>

definition cell3 :: "'g cell" where
  "cell3 w k =
     ebind (lookup_names [''cf''] k) (\<lambda>u.
     let gs = geometries w LAND; k = k\<lparr>land_geoms := Some gs\<rparr> in
     ebind (py_getitem gs 21) (\<lambda>g. Inr (k, Some (Svg g))))"

text \<open>\<^verbatim>\<open>gv.Shape(land_geoms[21], crs=ccrs.PlateCarree(), group='Australia')\<close>\<close>

definition cell4 :: "'g cell" where
  "cell4 w k =
     ebind (lookup_names [''gv''] k) (\<lambda>u.
     ebind (lookup_var ''land_geoms'' (land_geoms k)) (\<lambda>gs.
     ebind (py_getitem gs 21) (\<lambda>g.
     ebind (lookup_names [''ccrs''] k) (\<lambda>u.
     Inr (k, Some (Plot (gv_Shape g PlateCarree (Some ''Australia''))))))))"

text \<open>
  \<^verbatim>\<open>%%opts NdOverlay [aspect=2]\<close>,
  \<^verbatim>\<open>hv.NdOverlay({i: gv.Shape(s, crs=ccrs.PlateCarree()) for i, s in enumerate(land_geoms)})\<close>

  The dict comprehension stores one item after the other; an item whose key is already in
  the dict replaces the value stored there.
\<close>

fun dict_comprehension ::
  "'g kernel \<Rightarrow> (nat \<times> 'g) list \<Rightarrow> (key \<times> 'g element) list \<Rightarrow> error + (key \<times> 'g element) list"
where
  "dict_comprehension k [] d = Inr d"
| "dict_comprehension k ((i, s) # ps) d =
     ebind (lookup_names [''gv'', ''ccrs''] k) (\<lambda>u.
     dict_comprehension k ps (AList.update (Index i) (gv_Shape s PlateCarree None) d))"

definition cell5 :: "'g cell" where
  "cell5 w k =
     ebind (cell_magic ''opts NdOverlay [aspect=2]'' k) (\<lambda>u.
     ebind (lookup_names [''hv''] k) (\<lambda>u.
     ebind (lookup_var ''land_geoms'' (land_geoms k)) (\<lambda>gs.
     ebind (dict_comprehension k (py_enumerate gs) []) (\<lambda>d.
     Inr (k, Some (Styled ''opts NdOverlay [aspect=2]'' (Plot (NdOverlay d))))))))"

text \<open>
  \<^verbatim>\<open>shapefile = './assets/boundaries/boundaries.shp'\<close>,
  \<^verbatim>\<open>gv.Shape.from_shapefile(shapefile, crs=ccrs.PlateCarree())\<close>
\<close>

definition cell6 :: "'g cell" where
  "cell6 w k =
     (let k = k\<lparr>shapefile := Some ''./assets/boundaries/boundaries.shp''\<rparr> in
      ebind (lookup_names [''gv''] k) (\<lambda>u.
      ebind (lookup_var ''shapefile'' (shapefile k)) (\<lambda>path.
      ebind (lookup_names [''ccrs''] k) (\<lambda>u.
      ebind (from_shapefile w path PlateCarree) (\<lambda>ov. Inr (k, Some (Plot ov)))))))"

text \<open>
  \<^verbatim>\<open>shapes = cartopy.io.shapereader.Reader(shapefile)\<close>, \<^verbatim>\<open>list(shapes.records())[0]\<close>
\<close>

definition cell7 :: "'g cell" where
  "cell7 w k =
     ebind (lookup_names [''cartopy''] k) (\<lambda>u.
     ebind (lookup_var ''shapefile'' (shapefile k)) (\<lambda>path.
     ebind (Reader w path) (\<lambda>rd.
     let k = k\<lparr>shapes := Some rd\<rparr> in
     ebind (py_getitem (records rd) 0) (\<lambda>r. Inr (k, Some (Record_repr r))))))"

text \<open>
  \<^verbatim>\<open>referendum = pd.read_csv('./assets/referendum.csv')\<close>,
  \<^verbatim>\<open>referendum = hv.Dataset(referendum)\<close>, \<^verbatim>\<open>referendum.data.head()\<close>

  The name \<open>referendum\<close> is bound to the table and then to the dataset around it; the
  kernel the cell returns holds the second binding.
\<close>

definition cell8 :: "'g cell" where
  "cell8 w k =
     ebind (lookup_names [''pd''] k) (\<lambda>u.
     ebind (read_csv w ''./assets/referendum.csv'') (\<lambda>df.
     ebind (lookup_names [''hv''] k) (\<lambda>u.
     let ds = Dataset df; k = k\<lparr>referendum := Some ds\<rparr> in
     Inr (k, Some (Frame (head (data ds)))))))"

text \<open>
  \<^verbatim>\<open>%%opts Shape (cmap='viridis')\<close>,
  \<^verbatim>\<open>gv.Shape.from_records(shapes.records(), referendum, on='code', value='leaveVoteshare',
                     index=['name', 'regionName'], crs=ccrs.PlateCarree())\<close>
\<close>

definition cell9 :: "'g cell" where
  "cell9 w k =
     ebind (cell_magic ''opts Shape (cmap='viridis')'' k) (\<lambda>u.
     ebind (lookup_names [''gv''] k) (\<lambda>u.
     ebind (lookup_var ''shapes'' (shapes k)) (\<lambda>rd.
     ebind (lookup_var ''referendum'' (referendum k)) (\<lambda>ds.
     ebind (lookup_names [''ccrs''] k) (\<lambda>u.
     ebind (from_records (records rd) ds ''code'' ''leaveVoteshare''
              [''name'', ''regionName''] PlateCarree) (\<lambda>ov.
     Inr (k, Some (Styled ''opts Shape (cmap='viridis')'' (Plot ov)))))))))"

subsection \<open>Evaluating the cells in their order\<close>

definition notebook :: "'g cell list" where
  "notebook = [cell1, cell2, cell3, cell4, cell5, cell6, cell7, cell8, cell9]"

text \<open>
  The cells are evaluated one after the other on the same kernel; the first exception stops
  the evaluation and is its result (the bindings made before it are not kept in the
  result). Otherwise the result is the final kernel and what each cell displayed.
\<close>

fun run_cells ::
  "'g cell list \<Rightarrow> 'g world \<Rightarrow> 'g kernel \<Rightarrow> error + 'g kernel \<times> 'g display option list"
where
  "run_cells [] w k = Inr (k, [])"
| "run_cells (c # cs) w k =
     ebind (c w k) (\<lambda>(k', d).
     ebind (run_cells cs w k') (\<lambda>(k'', ds). Inr (k'', d # ds)))"

definition run_notebook :: "'g world \<Rightarrow> error + 'g kernel \<times> 'g display option list" where
  "run_notebook w = run_cells notebook w fresh_kernel"

text \<open>The evaluation of the first \<open>n\<close> cells only.\<close>

definition run_upto :: "nat \<Rightarrow> 'g world \<Rightarrow> error + 'g kernel \<times> 'g display option list" where
  "run_upto n w = run_cells (take n notebook) w fresh_kernel"

text \<open>
  The kernel once the first cell has run: the extension is loaded and the names of the
  libraries that later cells read are bound.
\<close>

definition imports_done :: "'g kernel \<Rightarrow> bool" where
  "imports_done k =
     (extension k \<and>
      set [''pd'', ''hv'', ''gv'', ''cartopy'', ''ccrs'', ''cf''] \<subseteq> set (modules k))"

abbreviation boundaries_shp :: string where
  "boundaries_shp \<equiv> ''./assets/boundaries/boundaries.shp''"

abbreviation referendum_csv :: string where
  "referendum_csv \<equiv> ''./assets/referendum.csv''"

subsection \<open>A reading of the three kinds of cell\<close>

text \<open>
  What a display shows: a \<open>Plot\<close> is the rendering of elements by the plotting library (under
  the options of a cell magic or not); the SVG of a bare geometry, the repr of a record and
  a data frame are not.
\<close>

fun renders_wrappers :: "'g display \<Rightarrow> bool" where
  "renders_wrappers (Plot el) = True"
| "renders_wrappers (Styled opts d) = renders_wrappers d"
| "renders_wrappers (Svg g) = False"
| "renders_wrappers (Record_repr r) = False"
| "renders_wrappers (Frame t) = False"

text \<open>
  Modelled from the spec's words (section 2, "cells that (a) import external libraries,
  (b) construct wrapper objects around library-provided geometries, and (c) render them"),
  read on what a cell binds and displays: a cell that takes the kernel \<open>k\<close> to \<open>k'\<close> and
  displays \<open>d\<close> does nothing but these three things when the objects it binds are wrappers
  (elements), so that it binds no reader and no dataset, and when what it displays, if
  anything, is a rendering of elements. A path and the list of the geometries themselves
  are left out of the reading.
\<close>

definition spec_three_kinds :: "'g kernel \<Rightarrow> 'g kernel \<Rightarrow> 'g display option \<Rightarrow> bool" where
  "spec_three_kinds k k' d =
     (shapes k' = shapes k \<and> referendum k' = referendum k
      \<and> (case d of None \<Rightarrow> True | Some x \<Rightarrow> renders_wrappers x))"

subsection \<open>The last cell over an arbitrary merge\<close>




subsection \<open>The notebook over arbitrary libraries, with a log of its operations\<close>

text \<open>
  For the exceptions, every operation of a cell that can raise is recorded: the call of a
  library function, the lookup of a name, a magic, an indexing. The log of a computation
  holds one event for each operation it performed, in order: the operation returned, or it
  raised an exception.
\<close>

datatype event = is_Returned: Returned string | Raised string error

type_synonym 'a traced = "event list \<times> (error + 'a)"




text \<open>
  A computation passes exceptions through when its log is made of operations that returned,
  followed, exactly when the computation raises \<open>e\<close>, by one operation that raised \<open>e\<close>:
  nothing runs after a raise, and the exception an operation raises is the result.
\<close>

fun ends_with_raise :: "event list \<Rightarrow> error \<Rightarrow> bool" where
  "ends_with_raise [] e = False"
| "ends_with_raise [Returned name] e = False"
| "ends_with_raise [Raised name e'] e = (e' = e)"
| "ends_with_raise (ev # evs) e = (is_Returned ev \<and> ends_with_raise evs e)"

definition passes_exceptions :: "'a traced \<Rightarrow> bool" where
  "passes_exceptions m =
     (case snd m of
        Inl e \<Rightarrow> ends_with_raise (fst m) e
      | Inr x \<Rightarrow> list_all is_Returned (fst m))"

















subsection \<open>Sample worlds\<close>

text \<open>
  A small world on which the statements below are evaluated: geometries are numbers, the
  land has thirty of them, the shapefile three districts and the table two rows.
\<close>

definition sample_records :: "nat shp_record list" where
  "sample_records =
     [Record 100 [(''code'', ''E06000001''), (''name'', ''Hartlepool'')],
      Record 101 [(''code'', ''E06000002''), (''name'', ''Middlesbrough'')],
      Record 102 [(''code'', ''E06000003'')]]"

definition sample_table :: table where
  "sample_table =
     Table [''code'', ''name'', ''regionName'', ''leaveVoteshare'']
       [[(''code'', ''E06000002''), (''name'', ''Middlesbrough''),
         (''regionName'', ''North East''), (''leaveVoteshare'', ''65.48'')],
        [(''code'', ''E06000001''), (''name'', ''Hartlepool''),
         (''regionName'', ''North East''), (''leaveVoteshare'', ''69.57'')]]"

definition sample_land :: "nat list" where
  "sample_land =
     [0, 1, 2, 3, 4, 5, 6, 7, 8, 9, 10, 11, 12, 13, 14, 15, 16, 17, 18, 19,
      20, 21, 22, 23, 24, 25, 26, 27, 28, 29]"

definition sample_world :: "nat world" where
  "sample_world =
     \<lparr>files = map_of [(boundaries_shp, Shapefile sample_records),
                       (referendum_csv, CsvFile sample_table)],
      natural_earth = (\<lambda>f. case f of LAND \<Rightarrow> sample_land | _ \<Rightarrow> [])\<rparr>"

text \<open>
  Variations of it: a shapefile without records, a land of twenty-one geometries, and a
  world without the shapefile.
\<close>

definition no_records_world :: "nat world" where
  "no_records_world =
     sample_world\<lparr>files := map_of [(boundaries_shp, Shapefile []),
                                   (referendum_csv, CsvFile sample_table)]\<rparr>"

definition small_land_world :: "nat world" where
  "small_land_world = sample_world\<lparr>natural_earth := (\<lambda>f. take 21 sample_land)\<rparr>"


text \<open>The sample world with a third file that no cell names.\<close>

definition extra_file_world :: "nat world" where
  "extra_file_world =
     sample_world\<lparr>files := map_of [(boundaries_shp, Shapefile sample_records),
                                   (referendum_csv, CsvFile sample_table),
                                   (''./assets/notes.csv'', CsvFile (Table [] []))]\<rparr>"

text \<open>The kernel after the first cell, with \<open>land_geoms\<close> bound to a list.\<close>

definition sample_kernel :: "nat list \<Rightarrow> nat kernel" where
  "sample_kernel gs =
     fresh_kernel\<lparr>modules := [''cf'', ''ccrs'', ''cartopy'', ''gv'', ''hv'', ''np'', ''pd''],
                  extension := True, options := [''output dpi=120''],
                  land_geoms := Some gs\<rparr>"



section \<open>Properties\<close>

subsection \<open>Names, indexing and the dict comprehension\<close>

lemma lookup_names_bound: "set ns \<subseteq> set (modules k) \<Longrightarrow> lookup_names ns k = Inr ()"
  by (induction ns) auto

lemma update_new_key: "x \<notin> fst ` set al \<Longrightarrow> AList.update x v al = al @ [(x, v)]"
  by (induction al) (auto simp: image_iff)

lemma dict_comprehension_new_keys:
  assumes "''gv'' \<in> set (modules k)" and "''ccrs'' \<in> set (modules k)"
  shows "distinct (map fst ps) \<Longrightarrow> \<forall>i \<in> fst ` set ps. Index i \<notin> fst ` set d \<Longrightarrow>
     dict_comprehension k ps d =
       Inr (d @ map (\<lambda>(i, s). (Index i, Shape s PlateCarree None None)) ps)"
proof (induction ps arbitrary: d)
  case Nil
  then show ?case by simp
next
  case (Cons p ps)
  obtain i s where p: "p = (i, s)" by (cases p)
  have new: "Index i \<notin> fst ` set d" using Cons.prems(2) p by simp
  let ?d = "d @ [(Index i, Shape s PlateCarree None None)]"
  have "distinct (map fst ps)" using Cons.prems(1) by simp
  moreover have "\<forall>j \<in> fst ` set ps. Index j \<notin> fst ` set ?d"
    using Cons.prems p by (auto simp: image_iff)
  ultimately have "dict_comprehension k ps ?d =
      Inr (?d @ map (\<lambda>(i, s). (Index i, Shape s PlateCarree None None)) ps)"
    by (rule Cons.IH)
  then show ?case
    using assms new by (simp add: p gv_Shape_def update_new_key)
qed

lemma dict_comprehension_enumerate:
  assumes "''gv'' \<in> set (modules k)" and "''ccrs'' \<in> set (modules k)"
  shows "dict_comprehension k (py_enumerate gs) [] =
     Inr (zip (map Index [0..<length gs]) (map (\<lambda>s. Shape s PlateCarree None None) gs))"
proof -
  have "dict_comprehension k (py_enumerate gs) [] =
      Inr ([] @ map (\<lambda>(i, s). (Index i, Shape s PlateCarree None None)) (py_enumerate gs))"
    by (rule dict_comprehension_new_keys [OF assms]) (simp_all add: py_enumerate_def)
  moreover have "map (\<lambda>(i, s). (Index i, Shape s PlateCarree None None)) (zip is gs) =
      zip (map Index is) (map (\<lambda>s. Shape s PlateCarree None None) gs)" for "is" :: "nat list"
    by (simp add: zip_map_map)
  ultimately show ?thesis by (simp add: py_enumerate_def)
qed

text \<open>
  C9. For every list \<open>land_geoms\<close> of \<open>n\<close> geometries, the fifth cell displays an
  \<open>NdOverlay\<close> of exactly \<open>n\<close> items whose keys are the distinct integers \<open>0\<close> to \<open>n - 1\<close>
  in this order, and the item at key \<open>i\<close> is the \<open>Shape\<close> around the \<open>i\<close>-th geometry of
  the list: the comprehension drops no geometry and no key collides. (The cell reads the
  names \<open>hv\<close>, \<open>gv\<close> and \<open>ccrs\<close> and the magic of the extension, so they are bound.)
\<close>

theorem ndoverlay_one_shape_per_geometry:
  assumes "extension k" and "''hv'' \<in> set (modules k)" and "''gv'' \<in> set (modules k)"
    and "''ccrs'' \<in> set (modules k)" and "land_geoms k = Some gs"
  shows "\<exists>d. cell5 w k =
        Inr (k, Some (Styled ''opts NdOverlay [aspect=2]'' (Plot (NdOverlay d))))
     \<and> length d = length gs
     \<and> map fst d = map Index [0..<length gs]
     \<and> distinct (map fst d)
     \<and> (\<forall>i<length gs. map_of d (Index i) = Some (Shape (gs ! i) PlateCarree None None))"
proof -
  let ?d = "zip (map Index [0..<length gs]) (map (\<lambda>s. Shape s PlateCarree None None) gs)"
  have run: "cell5 w k =
      Inr (k, Some (Styled ''opts NdOverlay [aspect=2]'' (Plot (NdOverlay ?d))))"
    using assms by (simp add: cell5_def cell_magic_def lookup_var_def dict_comprehension_enumerate)
  have keys: "map fst ?d = map Index [0..<length gs]" by simp
  have dist: "distinct (map Index [0..<length gs])" by (simp add: distinct_map inj_on_def)
  have "map_of ?d (Index i) = Some (Shape (gs ! i) PlateCarree None None)" if "i < length gs" for i
  proof -
    have "map_of ?d (map Index [0..<length gs] ! i) =
        Some (map (\<lambda>s. Shape s PlateCarree None None) gs ! i)"
      using that dist by (intro map_of_zip_nth) simp_all
    then show ?thesis using that by simp
  qed
  with run keys dist show ?thesis by (intro exI [of _ ?d]) simp
qed

theorem ndoverlay_one_shape_per_geometry_witness:
  "\<exists>d. cell5 sample_world (sample_kernel [7, 8, 9]) =
        Inr (sample_kernel [7, 8, 9],
             Some (Styled ''opts NdOverlay [aspect=2]'' (Plot (NdOverlay d))))
     \<and> length d = 3
     \<and> map fst d = [Index 0, Index 1, Index 2]
     \<and> map_of d (Index 2) = Some (Shape 9 PlateCarree None None)"
proof -
  have k: "extension (sample_kernel [7, 8, 9])" "''hv'' \<in> set (modules (sample_kernel [7, 8, 9]))"
    "''gv'' \<in> set (modules (sample_kernel [7, 8, 9]))"
    "''ccrs'' \<in> set (modules (sample_kernel [7, 8, 9]))"
    "land_geoms (sample_kernel [7, 8, 9]) = Some [7, 8, 9]"
    by (simp_all add: sample_kernel_def fresh_kernel_def)
  from ndoverlay_one_shape_per_geometry [OF k, of sample_world]
  obtain d where d: "cell5 sample_world (sample_kernel [7, 8, 9]) =
        Inr (sample_kernel [7, 8, 9],
             Some (Styled ''opts NdOverlay [aspect=2]'' (Plot (NdOverlay d))))"
    "length d = length [7, 8, 9 :: nat]"
    "map fst d = map Index [0..<length [7, 8, 9 :: nat]]"
    "\<forall>i<length [7, 8, 9 :: nat]. map_of d (Index i) = Some (Shape ([7, 8, 9] ! i) PlateCarree None None)"
    by blast
  have "map_of d (Index 2) = Some (Shape 9 PlateCarree None None)"
    using d(4) by (simp add: numeral_2_eq_2)
  moreover have "map fst d = [Index 0, Index 1, Index 2]"
    using d(3) by (simp add: upt_rec numeral_2_eq_2)
  ultimately show ?thesis using d(1,2) by (intro exI [of _ d]) simp
qed

subsection \<open>Evaluation of a prefix of the notebook\<close>

lemma py_getitem_21:
  "py_getitem xs 21 = (if 22 \<le> length xs then Inr (xs ! 21) else Inl IndexError)"
  by (auto simp: py_getitem_def)

lemma py_getitem_0: "py_getitem xs 0 = (if xs = [] then Inl IndexError else Inr (xs ! 0))"
  by (auto simp: py_getitem_def)

lemma ebind_assoc: "ebind (ebind m f) g = ebind m (\<lambda>x. ebind (f x) g)"
  by (cases m) simp_all

lemma ebind_eq_Inr: "ebind m f = Inr y \<longleftrightarrow> (\<exists>x. m = Inr x \<and> f x = Inr y)"
  by (cases m) simp_all


lemma run_cells_append:
  "run_cells (cs @ cs') w k =
     ebind (run_cells cs w k) (\<lambda>(k', ds).
     ebind (run_cells cs' w k') (\<lambda>(k'', ds'). Inr (k'', ds @ ds')))"
proof (induction cs arbitrary: k)
  case Nil
  show ?case by (cases "run_cells cs' w k") auto
next
  case (Cons c cs)
  show ?case
  proof (cases "c w k")
    case (Inl e)
    then show ?thesis by simp
  next
    case (Inr r)
    obtain k1 d where r: "r = (k1, d)" by (cases r)
    show ?thesis
    proof (cases "run_cells cs w k1")
      case (Inl e)
      then show ?thesis using Inr r Cons.IH [of k1] by simp
    next
      case cs: (Inr r1)
      obtain k2 ds where r1: "r1 = (k2, ds)" by (cases r1)
      show ?thesis
        using Inr r cs r1 Cons.IH [of k1] by (cases "run_cells cs' w k2") auto
    qed
  qed
qed

lemma run_upto_0: "run_upto 0 w = Inr (fresh_kernel, [])"
  by (simp add: run_upto_def)

lemma run_upto_Suc:
  assumes "n < length (notebook :: 'g cell list)"
  shows "run_upto (Suc n) (w :: 'g world) =
     ebind (run_upto n w) (\<lambda>(k, ds).
     ebind ((notebook ! n) w k) (\<lambda>(k', d). Inr (k', ds @ [d])))"
proof -
  have "take (Suc n) (notebook :: 'g cell list) = take n notebook @ [notebook ! n]"
    using assms by (rule take_Suc_conv_app_nth)
  then have "run_upto (Suc n) w =
      ebind (run_upto n w) (\<lambda>(k, ds).
      ebind (run_cells [notebook ! n] w k) (\<lambda>(k', ds'). Inr (k', ds @ ds')))"
    by (simp add: run_upto_def run_cells_append)
  moreover have "ebind (run_cells [c] w k) (\<lambda>(k', ds'). Inr (k', ds @ ds')) =
      ebind (c w k) (\<lambda>(k', d). Inr (k', ds @ [d]))" for c :: "'g cell" and k ds
    by (cases "c w k") auto
  ultimately show ?thesis by simp
qed

lemma run_upto_step:
  assumes "run_upto n w = Inr (k, ds)" and "n < length (notebook :: 'g cell list)"
  shows "run_upto (Suc n) (w :: 'g world) =
     ebind ((notebook ! n) w k) (\<lambda>(k', d). Inr (k', ds @ [d]))"
  using assms by (simp add: run_upto_Suc)

lemma run_upto_all: "run_upto 9 w = run_notebook w"
  by (simp add: run_upto_def run_notebook_def notebook_def)

lemma length_notebook: "length notebook = 9"
  by (simp add: notebook_def)

lemma run_upto_fails:
  assumes "run_upto n w = Inl e"
  shows "run_notebook w = Inl e"
proof -
  have "notebook = take n notebook @ drop n notebook" by simp
  then have "run_notebook w = run_cells (take n notebook @ drop n notebook) w fresh_kernel"
    by (simp add: run_notebook_def)
  also have "\<dots> = Inl e"
    using assms unfolding run_cells_append by (simp add: run_upto_def)
  finally show ?thesis .
qed

subsection \<open>What each cell does once the imports have run\<close>

lemma cell1_fresh:
  "\<exists>k. cell1 w fresh_kernel = Inr (k, None) \<and> imports_done k"
  by (simp add: Let_def cell1_def import_as_def line_magic_def imports_done_def fresh_kernel_def)

lemma cell2_done:
  assumes "imports_done k"
  shows "\<exists>k'. cell2 w k =
       Inr (k', Some (Plot (Layout [Feature LAND, Feature BORDERS,
                                   Relabel ''Overlay'' (Overlay [Feature LAND, Feature BORDERS])])))
     \<and> imports_done k' \<and> land_geoms k' = land_geoms k \<and> shapefile k' = shapefile k"
  using assms
  by (simp add: Let_def cell2_def line_magic_def imports_done_def gv_Feature_def hv_add_def hv_mul_def)

lemma cell3_done:
  assumes "imports_done k"
  shows "cell3 w k =
     (if 22 \<le> length (natural_earth w LAND)
      then Inr (k\<lparr>land_geoms := Some (natural_earth w LAND)\<rparr>, Some (Svg (natural_earth w LAND ! 21)))
      else Inl IndexError)"
  using assms by (simp add: Let_def cell3_def imports_done_def geometries_def py_getitem_21)

lemma cell4_done:
  assumes "imports_done k" and "land_geoms k = Some gs"
  shows "cell4 w k =
     (if 22 \<le> length gs
      then Inr (k, Some (Plot (Shape (gs ! 21) PlateCarree (Some ''Australia'') None)))
      else Inl IndexError)"
  using assms by (simp add: Let_def cell4_def imports_done_def lookup_var_def py_getitem_21 gv_Shape_def)

lemma cell5_done:
  assumes "imports_done k" and "land_geoms k = Some gs"
  shows "cell5 w k =
     Inr (k, Some (Styled ''opts NdOverlay [aspect=2]'' (Plot (NdOverlay
       (zip (map Index [0..<length gs]) (map (\<lambda>s. Shape s PlateCarree None None) gs))))))"
  using assms
  by (simp add: Let_def cell5_def imports_done_def cell_magic_def lookup_var_def dict_comprehension_enumerate)

lemma cell6_done:
  assumes "imports_done k"
  shows "cell6 w k =
     ebind (from_shapefile w boundaries_shp PlateCarree) (\<lambda>ov.
       Inr (k\<lparr>shapefile := Some boundaries_shp\<rparr>, Some (Plot ov)))"
  using assms by (simp add: Let_def cell6_def imports_done_def lookup_var_def)

lemma cell7_done:
  assumes "imports_done k" and "shapefile k = Some p"
  shows "cell7 w k =
     ebind (Reader w p) (\<lambda>rd.
     ebind (py_getitem (records rd) 0) (\<lambda>r. Inr (k\<lparr>shapes := Some rd\<rparr>, Some (Record_repr r))))"
  using assms by (simp add: Let_def cell7_def imports_done_def lookup_var_def)

lemma cell8_done:
  assumes "imports_done k"
  shows "cell8 w k =
     ebind (read_csv w referendum_csv) (\<lambda>df.
       Inr (k\<lparr>referendum := Some (Dataset df)\<rparr>, Some (Frame (head df))))"
  using assms by (simp add: Let_def cell8_def imports_done_def)

lemma cell9_done:
  assumes "imports_done k" and "shapes k = Some rd" and "referendum k = Some ds"
  shows "cell9 w k =
     ebind (from_records (records rd) ds ''code'' ''leaveVoteshare''
              [''name'', ''regionName''] PlateCarree) (\<lambda>ov.
       Inr (k, Some (Styled ''opts Shape (cmap='viridis')'' (Plot ov))))"
  using assms by (simp add: Let_def cell9_def imports_done_def cell_magic_def lookup_var_def)

subsection \<open>The run, cell after cell\<close>

lemma run_upto_ok:
  assumes "run_upto n w = Inr (k, ds)" and "n < length (notebook :: 'g cell list)"
    and "(notebook ! n) w k = Inr (k', d)" and "m = Suc n"
  shows "run_upto m (w :: 'g world) = Inr (k', ds @ [d])"
  using assms by (simp add: run_upto_Suc)

lemma run_upto_raise:
  assumes "run_upto n w = Inr (k, ds)" and "n < length (notebook :: 'g cell list)"
    and "(notebook ! n) w k = Inl e"
  shows "run_notebook (w :: 'g world) = Inl e"
proof -
  have "run_upto (Suc n) w = Inl e" using assms by (simp add: run_upto_Suc)
  then show ?thesis by (rule run_upto_fails)
qed

lemma stage2:
  "\<exists>k ds. run_upto 2 w = Inr (k, ds) \<and> length ds = 2 \<and> imports_done k"
proof -
  obtain k1 where k1: "cell1 w fresh_kernel = Inr (k1, None)" "imports_done k1"
    using cell1_fresh by blast
  obtain k2 d2 where k2: "cell2 w k1 = Inr (k2, d2)" "imports_done k2"
    using cell2_done [OF k1(2)] by blast
  have "run_upto 1 w = Inr (k1, [] @ [None])"
    using run_upto_0 by (rule run_upto_ok) (simp_all add: notebook_def k1)
  then have "run_upto 2 w = Inr (k2, ([] @ [None]) @ [d2])"
    by (rule run_upto_ok) (simp_all add: notebook_def k2)
  with k2 show ?thesis by simp
qed

lemma stage3:
  assumes "22 \<le> length (natural_earth w LAND)"
  shows "\<exists>k ds. run_upto 3 w = Inr (k, ds @ [Some (Svg (natural_earth w LAND ! 21))])
     \<and> length ds = 2 \<and> imports_done k \<and> land_geoms k = Some (natural_earth w LAND)"
proof -
  obtain k2 ds where k2: "run_upto 2 w = Inr (k2, ds)" "length ds = 2" "imports_done k2"
    using stage2 by blast
  let ?k = "k2\<lparr>land_geoms := Some (natural_earth w LAND)\<rparr>"
  have "run_upto 3 w = Inr (?k, ds @ [Some (Svg (natural_earth w LAND ! 21))])"
    using k2(1) by (rule run_upto_ok) (simp_all add: notebook_def cell3_done [OF k2(3)] assms)
  moreover have "imports_done ?k" using k2(3) by (simp add: imports_done_def)
  ultimately show ?thesis using k2(2) by auto
qed

lemma stage3_raise:
  assumes "length (natural_earth w LAND) < 22"
  shows "run_notebook w = Inl IndexError"
proof -
  obtain k2 ds where k2: "run_upto 2 w = Inr (k2, ds)" "imports_done k2"
    using stage2 by blast
  show ?thesis
    using k2(1) by (rule run_upto_raise) (use assms in \<open>simp_all add: notebook_def cell3_done [OF k2(2)]\<close>)
qed

lemma stage4:
  assumes "22 \<le> length (natural_earth w LAND)"
  shows "\<exists>k ds. run_upto 4 w =
         Inr (k, ds @ [Some (Svg (natural_earth w LAND ! 21)),
                       Some (Plot (Shape (natural_earth w LAND ! 21) PlateCarree
                                     (Some ''Australia'') None))])
     \<and> length ds = 2 \<and> imports_done k \<and> land_geoms k = Some (natural_earth w LAND)"
proof -
  obtain k ds where k: "run_upto 3 w = Inr (k, ds @ [Some (Svg (natural_earth w LAND ! 21))])"
    "length ds = 2" "imports_done k" "land_geoms k = Some (natural_earth w LAND)"
    using stage3 [OF assms] by blast
  have "run_upto 4 w =
      Inr (k, (ds @ [Some (Svg (natural_earth w LAND ! 21))]) @
              [Some (Plot (Shape (natural_earth w LAND ! 21) PlateCarree (Some ''Australia'') None))])"
    using k(1) by (rule run_upto_ok) (simp_all add: notebook_def cell4_done [OF k(3,4)] assms)
  with k show ?thesis by auto
qed

lemma stage5:
  assumes "22 \<le> length (natural_earth w LAND)"
  shows "\<exists>k ds. run_upto 5 w = Inr (k, ds) \<and> length ds = 5 \<and> imports_done k"
proof -
  obtain k ds where k: "run_upto 4 w =
      Inr (k, ds @ [Some (Svg (natural_earth w LAND ! 21)),
                    Some (Plot (Shape (natural_earth w LAND ! 21) PlateCarree
                                  (Some ''Australia'') None))])"
    "length ds = 2" "imports_done k" "land_geoms k = Some (natural_earth w LAND)"
    using stage4 [OF assms] by blast
  obtain d where d: "cell5 w k = Inr (k, d)"
    using cell5_done [OF k(3,4)] by blast
  have "run_upto 5 w = Inr (k, (ds @ [Some (Svg (natural_earth w LAND ! 21)),
                    Some (Plot (Shape (natural_earth w LAND ! 21) PlateCarree
                                  (Some ''Australia'') None))]) @ [d])"
    using k(1) by (rule run_upto_ok) (simp_all add: notebook_def d)
  with k show ?thesis by auto
qed

lemma from_shapefile_Reader:
  "from_shapefile w p c = Inl e \<longleftrightarrow> Reader w p = Inl e"
  by (cases "Reader w p") (simp_all add: from_shapefile_def)

lemma stage6:
  assumes "22 \<le> length (natural_earth w LAND)" and "Reader w boundaries_shp = Inr rd"
  shows "\<exists>k ds. run_upto 6 w = Inr (k, ds) \<and> length ds = 6 \<and> imports_done k
     \<and> shapefile k = Some boundaries_shp"
proof -
  obtain k ds where k: "run_upto 5 w = Inr (k, ds)" "length ds = 5" "imports_done k"
    using stage5 [OF assms(1)] by blast
  obtain ov where ov: "from_shapefile w boundaries_shp PlateCarree = Inr ov"
    using assms(2) by (simp add: from_shapefile_def)
  let ?k = "k\<lparr>shapefile := Some boundaries_shp\<rparr>"
  have "run_upto 6 w = Inr (?k, ds @ [Some (Plot ov)])"
    using k(1) by (rule run_upto_ok) (simp_all add: notebook_def cell6_done [OF k(3)] ov)
  moreover have "imports_done ?k" using k(3) by (simp add: imports_done_def)
  ultimately show ?thesis using k(2) by auto
qed

lemma stage6_raise:
  assumes "22 \<le> length (natural_earth w LAND)" and "Reader w boundaries_shp = Inl e"
  shows "run_notebook w = Inl e"
proof -
  obtain k ds where k: "run_upto 5 w = Inr (k, ds)" "imports_done k"
    using stage5 [OF assms(1)] by blast
  have "from_shapefile w boundaries_shp PlateCarree = Inl e"
    using assms(2) by (simp add: from_shapefile_Reader)
  then show ?thesis
    using k(1) by (intro run_upto_raise [OF k(1)]) (simp_all add: notebook_def cell6_done [OF k(2)])
qed

lemma stage7:
  assumes "22 \<le> length (natural_earth w LAND)" and "Reader w boundaries_shp = Inr rd"
    and "records rd \<noteq> []"
  shows "\<exists>k ds. run_upto 7 w = Inr (k, ds @ [Some (Record_repr (records rd ! 0))])
     \<and> length ds = 6 \<and> imports_done k \<and> shapes k = Some rd"
proof -
  obtain k ds where k: "run_upto 6 w = Inr (k, ds)" "length ds = 6" "imports_done k"
    "shapefile k = Some boundaries_shp"
    using stage6 [OF assms(1,2)] by blast
  let ?k = "k\<lparr>shapes := Some rd\<rparr>"
  have "run_upto 7 w = Inr (?k, ds @ [Some (Record_repr (records rd ! 0))])"
    using k(1)
    by (rule run_upto_ok) (simp_all add: notebook_def cell7_done [OF k(3,4)] assms py_getitem_0)
  moreover have "imports_done ?k" using k(3) by (simp add: imports_done_def)
  ultimately show ?thesis using k(2) by auto
qed

lemma stage7_raise:
  assumes "22 \<le> length (natural_earth w LAND)" and "Reader w boundaries_shp = Inr rd"
    and "records rd = []"
  shows "run_notebook w = Inl IndexError" and "run_upto 7 w = Inl IndexError"
proof -
  obtain k ds where k: "run_upto 6 w = Inr (k, ds)" "imports_done k"
    "shapefile k = Some boundaries_shp"
    using stage6 [OF assms(1,2)] by blast
  have c: "cell7 w k = Inl IndexError"
    by (simp add: cell7_done [OF k(2,3)] assms py_getitem_0)
  show "run_notebook w = Inl IndexError"
    by (rule run_upto_raise [OF k(1)]) (simp_all add: notebook_def c)
  have "run_upto (Suc 6) w = Inl IndexError"
    by (subst run_upto_Suc) (simp_all add: k(1) c notebook_def)
  then show "run_upto 7 w = Inl IndexError" by simp
qed

lemma stage8:
  assumes "22 \<le> length (natural_earth w LAND)" and "Reader w boundaries_shp = Inr rd"
    and "records rd \<noteq> []" and "read_csv w referendum_csv = Inr df"
  shows "\<exists>k ds. run_upto 8 w = Inr (k, ds) \<and> length ds = 8 \<and> imports_done k
     \<and> shapes k = Some rd \<and> referendum k = Some (Dataset df)"
proof -
  obtain k ds where k: "run_upto 7 w = Inr (k, ds @ [Some (Record_repr (records rd ! 0))])"
    "length ds = 6" "imports_done k" "shapes k = Some rd"
    using stage7 [OF assms(1,2,3)] by blast
  let ?k = "k\<lparr>referendum := Some (Dataset df)\<rparr>"
  have "run_upto 8 w =
      Inr (?k, (ds @ [Some (Record_repr (records rd ! 0))]) @ [Some (Frame (head df))])"
    using k(1) by (rule run_upto_ok) (simp_all add: notebook_def cell8_done [OF k(3)] assms)
  moreover have "imports_done ?k" using k(3) by (simp add: imports_done_def)
  ultimately show ?thesis using k(2,4) by auto
qed

lemma stage8_raise:
  assumes "22 \<le> length (natural_earth w LAND)" and "Reader w boundaries_shp = Inr rd"
    and "records rd \<noteq> []" and "read_csv w referendum_csv = Inl e"
  shows "run_notebook w = Inl e"
proof -
  obtain k ds where k: "run_upto 7 w = Inr (k, ds @ [Some (Record_repr (records rd ! 0))])"
    "imports_done k"
    using stage7 [OF assms(1,2,3)] by blast
  show ?thesis
    by (rule run_upto_raise [OF k(1)]) (simp_all add: notebook_def cell8_done [OF k(2)] assms)
qed

lemma stage9:
  assumes "22 \<le> length (natural_earth w LAND)" and "Reader w boundaries_shp = Inr rd"
    and "records rd \<noteq> []" and "read_csv w referendum_csv = Inr df"
    and "from_records (records rd) (Dataset df) ''code'' ''leaveVoteshare''
           [''name'', ''regionName''] PlateCarree = Inr ov"
  shows "\<exists>k ds. run_notebook w =
           Inr (k, ds @ [Some (Styled ''opts Shape (cmap='viridis')'' (Plot ov))])
     \<and> length ds = 8"
proof -
  obtain k ds where k: "run_upto 8 w = Inr (k, ds)" "length ds = 8" "imports_done k"
    "shapes k = Some rd" "referendum k = Some (Dataset df)"
    using stage8 [OF assms(1,2,3,4)] by blast
  have "run_upto 9 w = Inr (k, ds @ [Some (Styled ''opts Shape (cmap='viridis')'' (Plot ov))])"
    using k(1) by (rule run_upto_ok) (simp_all add: notebook_def cell9_done [OF k(3,4,5)] assms)
  with k(2) show ?thesis by (auto simp: run_upto_all)
qed

lemma stage9_raise:
  assumes "22 \<le> length (natural_earth w LAND)" and "Reader w boundaries_shp = Inr rd"
    and "records rd \<noteq> []" and "read_csv w referendum_csv = Inr df"
    and "from_records (records rd) (Dataset df) ''code'' ''leaveVoteshare''
           [''name'', ''regionName''] PlateCarree = Inl e"
  shows "run_notebook w = Inl e"
proof -
  obtain k ds where k: "run_upto 8 w = Inr (k, ds)" "imports_done k"
    "shapes k = Some rd" "referendum k = Some (Dataset df)"
    using stage8 [OF assms(1,2,3,4)] by blast
  show ?thesis
    by (rule run_upto_raise [OF k(1)]) (simp_all add: notebook_def cell9_done [OF k(2,3,4)] assms)
qed

lemma stage3_raise_upto:
  assumes "length (natural_earth w LAND) < 22"
  shows "run_upto 3 w = Inl IndexError"
proof -
  obtain k2 ds where k2: "run_upto 2 w = Inr (k2, ds)" "imports_done k2"
    using stage2 by blast
  have "run_upto (Suc 2) w = Inl IndexError"
    by (subst run_upto_Suc) (use assms in \<open>simp_all add: k2(1) notebook_def cell3_done [OF k2(2)]\<close>)
  then show ?thesis by simp
qed

lemma Reader_shapefile: "files w p = Some (Shapefile rs) \<Longrightarrow> Reader w p = Inr (Reader_of rs)"
  by (simp add: Reader_def)

lemma read_csv_table: "files w p = Some (CsvFile t) \<Longrightarrow> read_csv w p = Inr t"
  by (simp add: read_csv_def)

text \<open>
  C8. Evaluating the cells in order, \<open>land_geoms[21]\<close> raises IndexError exactly when
  \<open>cf.LAND\<close> yields fewer than 22 geometries; with at least 22, the third cell displays
  the geometry at position 21 and the \<open>Shape\<close> of the fourth cell wraps that same element of
  the list the kernel holds as \<open>land_geoms\<close>. With the land in bounds and the shapefile
  present, \<open>list(shapes.records())[0]\<close> raises IndexError exactly when the shapefile yields
  no record, and otherwise displays the first record.
\<close>

theorem indexing_in_bounds:
  "(run_upto 3 w = Inl IndexError \<longleftrightarrow> length (natural_earth w LAND) < 22)
   \<and> (22 \<le> length (natural_earth w LAND) \<longrightarrow>
        (\<exists>k ds. run_upto 4 w =
            Inr (k, ds @ [Some (Svg (natural_earth w LAND ! 21)),
                          Some (Plot (Shape (natural_earth w LAND ! 21) PlateCarree
                                        (Some ''Australia'') None))])
          \<and> land_geoms k = Some (natural_earth w LAND)))
   \<and> (22 \<le> length (natural_earth w LAND) \<and> files w boundaries_shp = Some (Shapefile rs) \<longrightarrow>
        (run_upto 7 w = Inl IndexError \<longleftrightarrow> rs = [])
        \<and> (rs \<noteq> [] \<longrightarrow> (\<exists>k ds. run_upto 7 w = Inr (k, ds @ [Some (Record_repr (rs ! 0))]))))"
proof (intro conjI impI)
  show "run_upto 3 w = Inl IndexError \<longleftrightarrow> length (natural_earth w LAND) < 22"
  proof (cases "length (natural_earth w LAND) < 22")
    case True
    then show ?thesis by (simp add: stage3_raise_upto)
  next
    case False
    then have "22 \<le> length (natural_earth w LAND)" by simp
    from stage3 [OF this] False show ?thesis by auto
  qed
next
  assume "22 \<le> length (natural_earth w LAND)"
  from stage4 [OF this]
  show "\<exists>k ds. run_upto 4 w =
            Inr (k, ds @ [Some (Svg (natural_earth w LAND ! 21)),
                          Some (Plot (Shape (natural_earth w LAND ! 21) PlateCarree
                                        (Some ''Australia'') None))])
          \<and> land_geoms k = Some (natural_earth w LAND)"
    by blast
next
  assume a: "22 \<le> length (natural_earth w LAND) \<and> files w boundaries_shp = Some (Shapefile rs)"
  then have rd: "Reader w boundaries_shp = Inr (Reader_of rs)" by (simp add: Reader_shapefile)
  show "run_upto 7 w = Inl IndexError \<longleftrightarrow> rs = []"
  proof (cases "rs = []")
    case True
    then show ?thesis using stage7_raise(2) [OF _ rd] a by simp
  next
    case False
    then have "records (Reader_of rs) \<noteq> []" by simp
    from stage7 [OF _ rd this] a False show ?thesis by auto
  qed
next
  assume a: "22 \<le> length (natural_earth w LAND) \<and> files w boundaries_shp = Some (Shapefile rs)"
    and "rs \<noteq> []"
  then have rd: "Reader w boundaries_shp = Inr (Reader_of rs)"
    and ne: "records (Reader_of rs) \<noteq> []" by (simp_all add: Reader_shapefile)
  from stage7 [OF _ rd ne] a
  show "\<exists>k ds. run_upto 7 w = Inr (k, ds @ [Some (Record_repr (rs ! 0))])" by auto
qed

lemma sample_land_length: "length sample_land = 30"
  by (simp add: sample_land_def)

lemma sample_world_facts:
  "natural_earth sample_world LAND = sample_land"
  "files sample_world boundaries_shp = Some (Shapefile sample_records)"
  "files sample_world referendum_csv = Some (CsvFile sample_table)"
  by (simp_all add: sample_world_def)

theorem indexing_in_bounds_witness:
  "run_upto 3 sample_world \<noteq> Inl IndexError
   \<and> (\<exists>k ds. run_upto 4 sample_world =
         Inr (k, ds @ [Some (Svg 21), Some (Plot (Shape 21 PlateCarree (Some ''Australia'') None))])
       \<and> land_geoms k = Some sample_land)
   \<and> run_upto 7 sample_world \<noteq> Inl IndexError
   \<and> (\<exists>k ds. run_upto 7 sample_world =
         Inr (k, ds @ [Some (Record_repr
                (Record 100 [(''code'', ''E06000001''), (''name'', ''Hartlepool'')]))]))
   \<and> run_upto 3 small_land_world = Inl IndexError
   \<and> run_upto 7 no_records_world = Inl IndexError"
proof -
  have n21: "sample_land ! 21 = 21" by (simp add: sample_land_def)
  have r0: "sample_records ! 0 = Record 100 [(''code'', ''E06000001''), (''name'', ''Hartlepool'')]"
    and rne: "sample_records \<noteq> []"
    by (simp_all add: sample_records_def)
  have small: "natural_earth small_land_world LAND = take 21 sample_land"
    by (simp add: small_land_world_def)
  have norec: "natural_earth no_records_world LAND = sample_land"
    "files no_records_world boundaries_shp = Some (Shapefile [])"
    by (simp_all add: no_records_world_def sample_world_def)
  show ?thesis
    using indexing_in_bounds [of sample_world sample_records]
      indexing_in_bounds [of small_land_world "[]"]
      indexing_in_bounds [of no_records_world "[]"]
    by (simp add: sample_world_facts sample_land_length n21 r0 rne small norec)
qed

subsection \<open>The whole run\<close>

lemma merge_record_total:
  assumes "on \<in> fst ` set (attributes r)"
  shows "\<exists>item. merge_record ds on val index c r = Inr item"
proof -
  obtain v where "map_of (attributes r) on = Some v"
    using assms by (cases "map_of (attributes r) on") (auto simp: map_of_eq_None_iff)
  then show ?thesis
    by (cases "select_rows ds on v") (simp_all add: merge_record_def)
qed

lemma merge_records_total:
  assumes "\<forall>r \<in> set rs. on \<in> fst ` set (attributes r)"
  shows "\<exists>items. merge_records ds on val index c rs = Inr items"
  using assms
proof (induction rs)
  case Nil
  then show ?case by simp
next
  case (Cons r rs)
  obtain item where "merge_record ds on val index c r = Inr item"
    using merge_record_total [where on = on and r = r and ds = ds and val = val
        and index = index and c = c] Cons.prems by auto
  moreover obtain items where "merge_records ds on val index c rs = Inr items"
    using Cons by auto
  ultimately show ?case by simp
qed

lemma from_records_total:
  assumes "on \<in> set (columns (data ds))" and "\<forall>r \<in> set rs. on \<in> fst ` set (attributes r)"
  shows "\<exists>ov. from_records rs ds on val index c = Inr ov"
proof -
  obtain items where "merge_records ds on val index c rs = Inr items"
    using merge_records_total [OF assms(2)] by blast
  then show ?thesis using assms(1) by (simp add: from_records_def)
qed




lemma sample_records_code: "\<forall>r \<in> set sample_records. ''code'' \<in> fst ` set (attributes r)"
  by (simp add: sample_records_def)




subsection \<open>Exceptions of the libraries\<close>

lemma sample_kernel_imports: "imports_done (sample_kernel gs)"
  by (simp add: sample_kernel_def fresh_kernel_def imports_done_def)

lemma returned_not_raise: "list_all is_Returned evs \<Longrightarrow> \<not> ends_with_raise evs e"
  by (induction evs e rule: ends_with_raise.induct) auto



















lemma handled_exception_does_not_pass:
  "\<not> passes_exceptions (evs @ Raised name e # evs', Inr x)"
  by (simp add: passes_exceptions_def)



subsection \<open>The assets and the join\<close>

lemma Reader_Inr: "Reader w p = Inr rd \<Longrightarrow> files w p = Some (Shapefile (records rd))"
  by (auto simp: Reader_def split: option.splits asset.splits)

lemma read_csv_Inr: "read_csv w p = Inr t \<Longrightarrow> files w p = Some (CsvFile t)"
  by (auto simp: read_csv_def split: option.splits asset.splits)

lemma run_notebook_Inr:
  assumes "run_notebook w = Inr (k, ds)"
  shows "\<exists>rs t ov ds8. files w boundaries_shp = Some (Shapefile rs)
     \<and> files w referendum_csv = Some (CsvFile t)
     \<and> from_records rs (Dataset t) ''code'' ''leaveVoteshare''
          [''name'', ''regionName''] PlateCarree = Inr ov
     \<and> ds = ds8 @ [Some (Styled ''opts Shape (cmap='viridis')'' (Plot ov))]
     \<and> length ds8 = 8"
proof -
  have land: "22 \<le> length (natural_earth w LAND)"
    using stage3_raise [of w] assms by (cases "22 \<le> length (natural_earth w LAND)") auto
  obtain rd where rd: "Reader w boundaries_shp = Inr rd"
    using stage6_raise [OF land] assms by (cases "Reader w boundaries_shp") auto
  have ne: "records rd \<noteq> []"
    using stage7_raise(1) [OF land rd] assms by auto
  obtain t where t: "read_csv w referendum_csv = Inr t"
    using stage8_raise [OF land rd ne] assms by (cases "read_csv w referendum_csv") auto
  obtain ov where ov: "from_records (records rd) (Dataset t) ''code'' ''leaveVoteshare''
      [''name'', ''regionName''] PlateCarree = Inr ov"
    using stage9_raise [OF land rd ne t] assms
    by (cases "from_records (records rd) (Dataset t) ''code'' ''leaveVoteshare''
      [''name'', ''regionName''] PlateCarree") auto
  obtain k' ds8 where "run_notebook w =
      Inr (k', ds8 @ [Some (Styled ''opts Shape (cmap='viridis')'' (Plot ov))])" "length ds8 = 8"
    using stage9 [OF land rd ne t ov] by blast
  with assms Reader_Inr [OF rd] read_csv_Inr [OF t] ov show ?thesis by auto
qed

lemma merge_record_Inr:
  assumes "merge_record ds on val index c r = Inr (ky, el)"
  shows "\<exists>v lv. map_of (attributes r) on = Some v \<and> el = Shape (geometry r) c None lv
     \<and> ((\<forall>row \<in> set (rows (data ds)). map_of row on \<noteq> Some v) \<and> lv = None
        \<or> (\<exists>row \<in> set (rows (data ds)). map_of row on = Some v \<and> lv = map_of row val
              \<and> ky = Values (map (map_of row) index)))"
proof -
  obtain v where v: "map_of (attributes r) on = Some v"
    using assms by (cases "map_of (attributes r) on") (simp_all add: merge_record_def)
  show ?thesis
  proof (cases "select_rows ds on v")
    case Nil
    then have "\<forall>row \<in> set (rows (data ds)). map_of row on \<noteq> Some v"
      by (simp add: select_rows_def filter_empty_conv)
    then show ?thesis using assms v Nil by (auto simp: merge_record_def)
  next
    case (Cons row rest)
    then have "row \<in> set (select_rows ds on v)" by simp
    then have "row \<in> set (rows (data ds))" "map_of row on = Some v"
      by (simp_all add: select_rows_def)
    then show ?thesis using assms v Cons by (auto simp: merge_record_def)
  qed
qed

lemma merge_records_Inr:
  "merge_records ds on val index c rs = Inr items \<Longrightarrow>
   length items = length rs
   \<and> (\<forall>i<length rs. merge_record ds on val index c (rs ! i) = Inr (items ! i))"
proof (induction rs arbitrary: items)
  case Nil
  then show ?case by simp
next
  case (Cons r rs)
  from Cons.prems obtain item rest where
    item: "merge_record ds on val index c r = Inr item"
    and rest: "merge_records ds on val index c rs = Inr rest"
    and items: "items = item # rest"
    by (auto simp: ebind_eq_Inr)
  from Cons.IH [OF rest] item items show ?case
    by (auto simp: nth_Cons split: nat.splits)
qed

lemma from_records_Inr:
  assumes "from_records rs ds on val index c = Inr ov"
  shows "\<exists>items. ov = NdOverlay items \<and> length items = length rs
     \<and> (\<forall>i<length rs. merge_record ds on val index c (rs ! i) = Inr (items ! i))"
proof -
  from assms obtain items where "merge_records ds on val index c rs = Inr items"
    and "ov = NdOverlay items"
    by (auto simp: from_records_def ebind_eq_Inr split: if_splits)
  with merge_records_Inr [of ds on val index c rs items] show ?thesis by auto
qed

text \<open>The cells read the world at the two asset paths and the land feature only.\<close>

lemma cells_same_world:
  assumes "files w' boundaries_shp = files w boundaries_shp"
    and "files w' referendum_csv = files w referendum_csv"
    and "natural_earth w' LAND = natural_earth w LAND"
  shows "cell1 w' k = cell1 w k" and "cell2 w' k = cell2 w k" and "cell3 w' k = cell3 w k"
    and "cell4 w' k = cell4 w k" and "cell5 w' k = cell5 w k" and "cell6 w' k = cell6 w k"
    and "shapefile k = None \<or> shapefile k = Some boundaries_shp \<Longrightarrow> cell7 w' k = cell7 w k"
    and "cell8 w' k = cell8 w k" and "cell9 w' k = cell9 w k"
proof -
  show "cell1 w' k = cell1 w k" "cell2 w' k = cell2 w k" "cell4 w' k = cell4 w k"
    "cell5 w' k = cell5 w k" "cell9 w' k = cell9 w k"
    by (simp_all add: cell1_def cell2_def cell4_def cell5_def cell9_def)
  show "cell3 w' k = cell3 w k" by (simp add: cell3_def geometries_def assms)
  show "cell6 w' k = cell6 w k"
    by (simp add: cell6_def Let_def lookup_var_def from_shapefile_def Reader_def assms)
  show "cell8 w' k = cell8 w k" by (simp add: cell8_def read_csv_def assms)
  show "cell7 w' k = cell7 w k" if "shapefile k = None \<or> shapefile k = Some boundaries_shp"
    using that by (auto simp: cell7_def lookup_var_def Reader_def assms)
qed

lemma cells_keep_shapefile:
  assumes "shapefile k = None \<or> shapefile k = Some boundaries_shp"
    and "c \<in> set notebook" and "c w k = Inr (k', d)"
  shows "shapefile k' = None \<or> shapefile k' = Some boundaries_shp"
proof -
  have "c w k = Inr (k', d) \<Longrightarrow> shapefile k' = shapefile k \<or> shapefile k' = Some boundaries_shp"
    if "c \<in> {cell1, cell2, cell3, cell4, cell5, cell6, cell7, cell8, cell9}"
    using that
    by (auto simp: cell1_def cell2_def cell3_def cell4_def cell5_def cell6_def cell7_def
        cell8_def cell9_def ebind_eq_Inr Let_def line_magic_def import_as_def split: if_splits)
  then show ?thesis using assms by (auto simp: notebook_def)
qed

lemma run_cells_same_world:
  fixes w w' :: "'g world"
  assumes "files w' boundaries_shp = files w boundaries_shp"
    and "files w' referendum_csv = files w referendum_csv"
    and "natural_earth w' LAND = natural_earth w LAND"
  shows "set cs \<subseteq> set notebook \<Longrightarrow>
     shapefile k = None \<or> shapefile k = Some boundaries_shp \<Longrightarrow>
     run_cells cs w' k = run_cells cs w k"
proof (induction cs arbitrary: k)
  case Nil
  show ?case by simp
next
  case (Cons c cs)
  have c: "c \<in> set notebook" using Cons.prems(1) by simp
  then have same: "c w' k = c w k"
    using cells_same_world [OF assms, of k] Cons.prems(2) by (auto simp: notebook_def)
  show ?case
  proof (cases "c w k")
    case (Inl e)
    then show ?thesis using same by simp
  next
    case (Inr r)
    obtain k1 d where r: "r = (k1, d)" by (cases r)
    have "shapefile k1 = None \<or> shapefile k1 = Some boundaries_shp"
      using cells_keep_shapefile [OF Cons.prems(2) c] Inr r by simp
    then have "run_cells cs w' k1 = run_cells cs w k1"
      using Cons.IH [of k1] Cons.prems(1) by simp
    then show ?thesis using same Inr r by simp
  qed
qed

text \<open>
  C2. The notebook references exactly two local data assets. The run depends on the files of
  the world only through \<open>./assets/boundaries/boundaries.shp\<close> and
  \<open>./assets/referendum.csv\<close> (two worlds that agree there and on the land geometries give
  the same run), and a run that completes has found a shapefile at the first path and a CSV
  table at the second. The overlay of the last cell has one shape per record of the
  shapefile, and every record is joined on the attribute \<open>code\<close>: either no row of the table
  has the record's \<open>code\<close> and the shape has no level, or the level (column
  \<open>leaveVoteshare\<close>) and the key (columns \<open>name\<close>, \<open>regionName\<close>) of the shape come from a
  row whose \<open>code\<close> is the record's.
\<close>

theorem two_assets_merged_on_code:
  "(\<forall>w'. files w' boundaries_shp = files w boundaries_shp
        \<and> files w' referendum_csv = files w referendum_csv
        \<and> natural_earth w' LAND = natural_earth w LAND
      \<longrightarrow> run_notebook w' = run_notebook w)
   \<and> (\<forall>k ds. run_notebook w = Inr (k, ds) \<longrightarrow>
        (\<exists>rs t items.
            files w boundaries_shp = Some (Shapefile rs)
          \<and> files w referendum_csv = Some (CsvFile t)
          \<and> ds ! 8 = Some (Styled ''opts Shape (cmap='viridis')'' (Plot (NdOverlay items)))
          \<and> length items = length rs
          \<and> (\<forall>i<length rs. \<exists>c ky lv.
                map_of (attributes (rs ! i)) ''code'' = Some c
              \<and> items ! i = (ky, Shape (geometry (rs ! i)) PlateCarree None lv)
              \<and> ((\<forall>row \<in> set (rows t). map_of row ''code'' \<noteq> Some c) \<and> lv = None
                 \<or> (\<exists>row \<in> set (rows t). map_of row ''code'' = Some c
                       \<and> lv = map_of row ''leaveVoteshare''
                       \<and> ky = Values [map_of row ''name'', map_of row ''regionName''])))))"
proof (intro conjI allI impI)
  fix w' :: "'a world"
  assume "files w' boundaries_shp = files w boundaries_shp
        \<and> files w' referendum_csv = files w referendum_csv
        \<and> natural_earth w' LAND = natural_earth w LAND"
  then show "run_notebook w' = run_notebook w"
    unfolding run_notebook_def
    by (intro run_cells_same_world) (simp_all add: fresh_kernel_def)
next
  fix k ds
  assume "run_notebook w = Inr (k, ds)"
  from run_notebook_Inr [OF this] obtain rs t ov ds8 where
    shp: "files w boundaries_shp = Some (Shapefile rs)"
    and csv: "files w referendum_csv = Some (CsvFile t)"
    and ov: "from_records rs (Dataset t) ''code'' ''leaveVoteshare''
          [''name'', ''regionName''] PlateCarree = Inr ov"
    and ds: "ds = ds8 @ [Some (Styled ''opts Shape (cmap='viridis')'' (Plot ov))]"
    and len: "length ds8 = 8"
    by blast
  from from_records_Inr [OF ov] obtain items where
    items: "ov = NdOverlay items" "length items = length rs"
    and merged: "\<forall>i<length rs. merge_record (Dataset t) ''code'' ''leaveVoteshare''
          [''name'', ''regionName''] PlateCarree (rs ! i) = Inr (items ! i)"
    by blast
  have last: "ds ! 8 = Some (Styled ''opts Shape (cmap='viridis')'' (Plot (NdOverlay items)))"
    using ds len items(1) by (simp add: nth_append)
  have "\<exists>c ky lv. map_of (attributes (rs ! i)) ''code'' = Some c
        \<and> items ! i = (ky, Shape (geometry (rs ! i)) PlateCarree None lv)
        \<and> ((\<forall>row \<in> set (rows t). map_of row ''code'' \<noteq> Some c) \<and> lv = None
           \<or> (\<exists>row \<in> set (rows t). map_of row ''code'' = Some c
                 \<and> lv = map_of row ''leaveVoteshare''
                 \<and> ky = Values [map_of row ''name'', map_of row ''regionName'']))"
    if "i < length rs" for i
  proof -
    obtain ky el where item: "items ! i = (ky, el)" by (cases "items ! i")
    then have "merge_record (Dataset t) ''code'' ''leaveVoteshare''
          [''name'', ''regionName''] PlateCarree (rs ! i) = Inr (ky, el)"
      using merged that by simp
    from merge_record_Inr [OF this] item show ?thesis by auto
  qed
  with shp csv last items(2)
  show "\<exists>rs t items.
            files w boundaries_shp = Some (Shapefile rs)
          \<and> files w referendum_csv = Some (CsvFile t)
          \<and> ds ! 8 = Some (Styled ''opts Shape (cmap='viridis')'' (Plot (NdOverlay items)))
          \<and> length items = length rs
          \<and> (\<forall>i<length rs. \<exists>c ky lv.
                map_of (attributes (rs ! i)) ''code'' = Some c
              \<and> items ! i = (ky, Shape (geometry (rs ! i)) PlateCarree None lv)
              \<and> ((\<forall>row \<in> set (rows t). map_of row ''code'' \<noteq> Some c) \<and> lv = None
                 \<or> (\<exists>row \<in> set (rows t). map_of row ''code'' = Some c
                       \<and> lv = map_of row ''leaveVoteshare''
                       \<and> ky = Values [map_of row ''name'', map_of row ''regionName''])))"
    by blast
qed

lemma sample_world_runs: "\<exists>k ds. run_notebook sample_world = Inr (k, ds)"
proof -
  have land: "22 \<le> length (natural_earth sample_world LAND)"
    by (simp add: sample_world_facts sample_land_length)
  have rd: "Reader sample_world boundaries_shp = Inr (Reader_of sample_records)"
    by (rule Reader_shapefile [OF sample_world_facts(2)])
  have ne: "records (Reader_of sample_records) \<noteq> []" by (simp add: sample_records_def)
  have df: "read_csv sample_world referendum_csv = Inr sample_table"
    by (rule read_csv_table [OF sample_world_facts(3)])
  obtain ov where "from_records (records (Reader_of sample_records)) (Dataset sample_table)
      ''code'' ''leaveVoteshare'' [''name'', ''regionName''] PlateCarree = Inr ov"
    using from_records_total [where on = "''code''" and ds = "Dataset sample_table"
        and rs = sample_records and val = "''leaveVoteshare''"
        and index = "[''name'', ''regionName'']" and c = PlateCarree] sample_records_code
    by (auto simp: sample_table_def)
  from stage9 [OF land rd ne df this] show ?thesis by blast
qed

theorem two_assets_merged_on_code_witness:
  "run_notebook extra_file_world = run_notebook sample_world
   \<and> (\<exists>k ds items. run_notebook sample_world = Inr (k, ds)
        \<and> ds ! 8 = Some (Styled ''opts Shape (cmap='viridis')'' (Plot (NdOverlay items)))
        \<and> length items = 3
        \<and> items ! 0 = (Values [Some ''Hartlepool'', Some ''North East''],
                        Shape 100 PlateCarree None (Some ''69.57''))
        \<and> snd (items ! 2) = Shape 102 PlateCarree None None)"
proof -
  note inst = two_assets_merged_on_code [of sample_world]
  have "files extra_file_world boundaries_shp = files sample_world boundaries_shp
      \<and> files extra_file_world referendum_csv = files sample_world referendum_csv
      \<and> natural_earth extra_file_world LAND = natural_earth sample_world LAND"
    by (simp add: extra_file_world_def sample_world_def)
  with inst have same: "run_notebook extra_file_world = run_notebook sample_world"
    by blast
  obtain k ds where run: "run_notebook sample_world = Inr (k, ds)"
    using sample_world_runs by blast
  with inst obtain rs t items where
    rs: "files sample_world boundaries_shp = Some (Shapefile rs)"
    and t: "files sample_world referendum_csv = Some (CsvFile t)"
    and last: "ds ! 8 = Some (Styled ''opts Shape (cmap='viridis')'' (Plot (NdOverlay items)))"
    and len: "length items = length rs"
    and merged: "\<forall>i<length rs. \<exists>c ky lv.
                map_of (attributes (rs ! i)) ''code'' = Some c
              \<and> items ! i = (ky, Shape (geometry (rs ! i)) PlateCarree None lv)
              \<and> ((\<forall>row \<in> set (rows t). map_of row ''code'' \<noteq> Some c) \<and> lv = None
                 \<or> (\<exists>row \<in> set (rows t). map_of row ''code'' = Some c
                       \<and> lv = map_of row ''leaveVoteshare''
                       \<and> ky = Values [map_of row ''name'', map_of row ''regionName'']))"
    by blast
  have rs_eq: "rs = sample_records" and t_eq: "t = sample_table"
    using rs t by (simp_all add: sample_world_facts)
  have i0: "items ! 0 = (Values [Some ''Hartlepool'', Some ''North East''],
                        Shape 100 PlateCarree None (Some ''69.57''))"
    using merged [rule_format, of 0]
    by (auto simp: rs_eq t_eq sample_records_def sample_table_def)
  have i2: "snd (items ! 2) = Shape 102 PlateCarree None None"
    using merged [rule_format, of 2]
    by (auto simp: rs_eq t_eq sample_records_def sample_table_def)
  have "length items = 3" using len by (simp add: rs_eq sample_records_def)
  with same run last i0 i2 show ?thesis by blast
qed

subsection \<open>What the cells bind and display\<close>

lemma run_cells_Cons_Inr:
  assumes "run_cells (c # cs) w k0 = Inr (k, ds)"
  shows "\<exists>k1 d ds'. c w k0 = Inr (k1, d) \<and> run_cells cs w k1 = Inr (k, ds') \<and> ds = d # ds'"
  using assms by (auto simp: ebind_eq_Inr)

lemma cell1_result:
  "cell1 w fresh_kernel =
     Inr (fresh_kernel\<lparr>modules := [''cf'', ''ccrs'', ''cartopy'', ''gv'', ''hv'', ''np'', ''pd''],
            extension := True, options := [''output dpi=120'']\<rparr>, None)"
  by (simp add: Let_def cell1_def import_as_def line_magic_def fresh_kernel_def)

lemma cell2_result:
  assumes "imports_done k"
  shows "cell2 w k =
     Inr (k\<lparr>options := options k @
            [''opts Overlay [show_grid=False] Layout [hspace=0.2 sublabel_position=(-.15, .7)]''],
            coasts := Some (Feature COASTLINE), borders := Some (Feature BORDERS),
            land := Some (Feature LAND)\<rparr>,
          Some (Plot (Layout [Feature LAND, Feature BORDERS,
                  Relabel ''Overlay'' (Overlay [Feature LAND, Feature BORDERS])])))"
  using assms
  by (simp add: Let_def cell2_def line_magic_def imports_done_def gv_Feature_def hv_add_def hv_mul_def)

text \<open>
  C5, as amended. The cells form a linear sequence without branching, each evaluated once
  in its order, and in a run that completes the nine cells do the following. The first
  imports the libraries and displays nothing. The second binds \<open>coasts\<close>, \<open>borders\<close> and
  \<open>land\<close> to wrappers around the features and displays their layout. The third binds
  \<open>land_geoms\<close> to the list of the land geometries and displays the bare geometry at
  position 21, the fourth displays the \<open>Shape\<close> around it, the fifth the overlay of all the
  shapes. The sixth binds the path \<open>shapefile\<close> and displays the shapes of the shapefile.
  The seventh binds \<open>shapes\<close> to a shapefile reader and displays the first record. The
  eighth binds \<open>referendum\<close> to a dataset around the CSV table and displays the head of
  the table. The ninth displays the overlay of the merged shapes.
\<close>

theorem cells_bind_and_display:
  assumes "run_notebook w = Inr (k, ds)"
  shows "\<exists>gs rs t d5 ov6 ov9 k1 k2 k3 k6 k7.
      natural_earth w LAND = gs
    \<and> files w boundaries_shp = Some (Shapefile rs)
    \<and> files w referendum_csv = Some (CsvFile t)
    \<and> cell1 w fresh_kernel = Inr (k1, None)
    \<and> k1 = fresh_kernel\<lparr>modules := [''cf'', ''ccrs'', ''cartopy'', ''gv'', ''hv'', ''np'', ''pd''],
               extension := True, options := [''output dpi=120'']\<rparr>
    \<and> cell2 w k1 = Inr (k2, Some (Plot (Layout [Feature LAND, Feature BORDERS,
                         Relabel ''Overlay'' (Overlay [Feature LAND, Feature BORDERS])])))
    \<and> k2 = k1\<lparr>options := options k1 @
               [''opts Overlay [show_grid=False] Layout [hspace=0.2 sublabel_position=(-.15, .7)]''],
               coasts := Some (Feature COASTLINE), borders := Some (Feature BORDERS),
               land := Some (Feature LAND)\<rparr>
    \<and> cell3 w k2 = Inr (k3, Some (Svg (gs ! 21)))
    \<and> k3 = k2\<lparr>land_geoms := Some gs\<rparr>
    \<and> cell4 w k3 = Inr (k3, Some (Plot (Shape (gs ! 21) PlateCarree (Some ''Australia'') None)))
    \<and> cell5 w k3 = Inr (k3, Some (Styled ''opts NdOverlay [aspect=2]'' (Plot (NdOverlay d5))))
    \<and> cell6 w k3 = Inr (k6, Some (Plot (NdOverlay ov6)))
    \<and> k6 = k3\<lparr>shapefile := Some boundaries_shp\<rparr>
    \<and> cell7 w k6 = Inr (k7, Some (Record_repr (rs ! 0)))
    \<and> k7 = k6\<lparr>shapes := Some (Reader_of rs)\<rparr>
    \<and> cell8 w k7 = Inr (k, Some (Frame (head t)))
    \<and> k = k7\<lparr>referendum := Some (Dataset t)\<rparr>
    \<and> cell9 w k = Inr (k, Some (Styled ''opts Shape (cmap='viridis')'' (Plot (NdOverlay ov9))))
    \<and> ds = [None,
            Some (Plot (Layout [Feature LAND, Feature BORDERS,
                    Relabel ''Overlay'' (Overlay [Feature LAND, Feature BORDERS])])),
            Some (Svg (gs ! 21)),
            Some (Plot (Shape (gs ! 21) PlateCarree (Some ''Australia'') None)),
            Some (Styled ''opts NdOverlay [aspect=2]'' (Plot (NdOverlay d5))),
            Some (Plot (NdOverlay ov6)),
            Some (Record_repr (rs ! 0)),
            Some (Frame (head t)),
            Some (Styled ''opts Shape (cmap='viridis')'' (Plot (NdOverlay ov9)))]"
proof -
  let ?k1 = "fresh_kernel\<lparr>modules := [''cf'', ''ccrs'', ''cartopy'', ''gv'', ''hv'', ''np'', ''pd''],
            extension := True, options := [''output dpi=120'']\<rparr> :: 'a kernel"
  have i1: "imports_done ?k1" by (simp add: imports_done_def)
  from assms have r1: "run_cells [cell2, cell3, cell4, cell5, cell6, cell7, cell8, cell9] w ?k1
      = Inr (k, tl ds)" and d1: "ds = None # tl ds"
    by (auto simp: run_notebook_def notebook_def cell1_result ebind_eq_Inr)
  from run_cells_Cons_Inr [OF r1] obtain k2 d2 ds2 where
    c2: "cell2 w ?k1 = Inr (k2, d2)"
    and r2: "run_cells [cell3, cell4, cell5, cell6, cell7, cell8, cell9] w k2 = Inr (k, ds2)"
    and e2: "tl ds = d2 # ds2" by blast
  from c2 have k2: "k2 = ?k1\<lparr>options := options ?k1 @
            [''opts Overlay [show_grid=False] Layout [hspace=0.2 sublabel_position=(-.15, .7)]''],
            coasts := Some (Feature COASTLINE), borders := Some (Feature BORDERS),
            land := Some (Feature LAND)\<rparr>"
    and d2: "d2 = Some (Plot (Layout [Feature LAND, Feature BORDERS,
                  Relabel ''Overlay'' (Overlay [Feature LAND, Feature BORDERS])]))"
    by (simp_all add: cell2_result [OF i1])
  have i2: "imports_done k2" by (simp add: k2 imports_done_def)
  let ?gs = "natural_earth w LAND"
  from run_cells_Cons_Inr [OF r2] obtain k3 d3 ds3 where
    c3: "cell3 w k2 = Inr (k3, d3)"
    and r3: "run_cells [cell4, cell5, cell6, cell7, cell8, cell9] w k3 = Inr (k, ds3)"
    and e3: "ds2 = d3 # ds3" by blast
  from c3 have k3: "k3 = k2\<lparr>land_geoms := Some ?gs\<rparr>" and d3: "d3 = Some (Svg (?gs ! 21))"
    and land: "22 \<le> length ?gs"
    by (simp_all add: cell3_done [OF i2] split: if_splits)
  have i3: "imports_done k3" and g3: "land_geoms k3 = Some ?gs"
    using i2 by (simp_all add: k3 imports_done_def)
  from run_cells_Cons_Inr [OF r3] obtain k4 d4 ds4 where
    c4: "cell4 w k3 = Inr (k4, d4)"
    and r4: "run_cells [cell5, cell6, cell7, cell8, cell9] w k4 = Inr (k, ds4)"
    and e4: "ds3 = d4 # ds4" by blast
  from c4 have k4: "k4 = k3"
    and d4: "d4 = Some (Plot (Shape (?gs ! 21) PlateCarree (Some ''Australia'') None))"
    by (simp_all add: cell4_done [OF i3 g3] split: if_splits)
  from run_cells_Cons_Inr [OF r4] obtain k5 d5 ds5 where
    c5: "cell5 w k4 = Inr (k5, d5)"
    and r5: "run_cells [cell6, cell7, cell8, cell9] w k5 = Inr (k, ds5)"
    and e5: "ds4 = d5 # ds5" by blast
  from c5 obtain dict where k5: "k5 = k3"
    and d5: "d5 = Some (Styled ''opts NdOverlay [aspect=2]'' (Plot (NdOverlay dict)))"
    by (auto simp: k4 cell5_done [OF i3 g3])
  from run_cells_Cons_Inr [OF r5] obtain k6 d6 ds6 where
    c6: "cell6 w k5 = Inr (k6, d6)"
    and r6: "run_cells [cell7, cell8, cell9] w k6 = Inr (k, ds6)"
    and e6: "ds5 = d6 # ds6" by blast
  from c6 obtain ov6 where f6: "from_shapefile w boundaries_shp PlateCarree = Inr ov6"
    and k6: "k6 = k3\<lparr>shapefile := Some boundaries_shp\<rparr>" and d6: "d6 = Some (Plot ov6)"
    by (auto simp: k5 cell6_done [OF i3] ebind_eq_Inr)
  from f6 obtain rd items6 where rd: "Reader w boundaries_shp = Inr rd"
    and ov6: "ov6 = NdOverlay items6"
    by (auto simp: from_shapefile_def ebind_eq_Inr)
  have i6: "imports_done k6" and s6: "shapefile k6 = Some boundaries_shp"
    using i3 by (simp_all add: k6 imports_done_def)
  from run_cells_Cons_Inr [OF r6] obtain k7 d7 ds7 where
    c7: "cell7 w k6 = Inr (k7, d7)"
    and r7: "run_cells [cell8, cell9] w k7 = Inr (k, ds7)"
    and e7: "ds6 = d7 # ds7" by blast
  from c7 rd have k7: "k7 = k6\<lparr>shapes := Some rd\<rparr>"
    and d7: "d7 = Some (Record_repr (records rd ! 0))"
    by (auto simp: cell7_done [OF i6 s6] ebind_eq_Inr py_getitem_0 split: if_splits)
  have i7: "imports_done k7" using i6 by (simp add: k7 imports_done_def)
  from run_cells_Cons_Inr [OF r7] obtain k8 d8 ds8 where
    c8: "cell8 w k7 = Inr (k8, d8)"
    and r8: "run_cells [cell9] w k8 = Inr (k, ds8)"
    and e8: "ds7 = d8 # ds8" by blast
  from c8 obtain t where t: "read_csv w referendum_csv = Inr t"
    and k8: "k8 = k7\<lparr>referendum := Some (Dataset t)\<rparr>" and d8: "d8 = Some (Frame (head t))"
    by (auto simp: cell8_done [OF i7] ebind_eq_Inr)
  have i8: "imports_done k8" and s8: "shapes k8 = Some rd"
    and f8: "referendum k8 = Some (Dataset t)"
    using i7 by (simp_all add: k8 k7 imports_done_def)
  from run_cells_Cons_Inr [OF r8] obtain k9 d9 ds9 where
    c9: "cell9 w k8 = Inr (k9, d9)"
    and r9: "run_cells [] w k9 = Inr (k, ds9)"
    and e9: "ds8 = d9 # ds9" by blast
  from c9 obtain ov9 where f9: "from_records (records rd) (Dataset t) ''code'' ''leaveVoteshare''
      [''name'', ''regionName''] PlateCarree = Inr ov9"
    and k9: "k9 = k8" and d9: "d9 = Some (Styled ''opts Shape (cmap='viridis')'' (Plot ov9))"
    by (auto simp: cell9_done [OF i8 s8 f8] ebind_eq_Inr)
  from f9 obtain items9 where ov9: "ov9 = NdOverlay items9"
    by (auto simp: from_records_def ebind_eq_Inr split: if_splits)
  from r9 have kk: "k = k9" and dd: "ds9 = []" by simp_all
  have ds: "ds = [None, d2, d3, d4, d5, d6, d7, d8, d9]"
    using d1 e2 e3 e4 e5 e6 e7 e8 e9 dd by simp
  have rdf: "rd = Reader_of (records rd)" by (cases rd) simp
  have c1: "cell1 w fresh_kernel = Inr (?k1, None)" by (rule cell1_result)
  have c2': "cell2 w ?k1 = Inr (k2, Some (Plot (Layout [Feature LAND, Feature BORDERS,
                         Relabel ''Overlay'' (Overlay [Feature LAND, Feature BORDERS])])))"
    using c2 d2 by simp
  have c3': "cell3 w k2 = Inr (k3, Some (Svg (?gs ! 21)))" using c3 d3 by simp
  have c4': "cell4 w k3 =
      Inr (k3, Some (Plot (Shape (?gs ! 21) PlateCarree (Some ''Australia'') None)))"
    using c4 k4 d4 by simp
  have c5': "cell5 w k3 =
      Inr (k3, Some (Styled ''opts NdOverlay [aspect=2]'' (Plot (NdOverlay dict))))"
    using c5 k4 k5 d5 by simp
  have c6': "cell6 w k3 = Inr (k6, Some (Plot (NdOverlay items6)))"
    using c6 k5 d6 ov6 by simp
  have c7': "cell7 w k6 = Inr (k7, Some (Record_repr (records rd ! 0)))"
    using c7 d7 by simp
  have k7': "k7 = k6\<lparr>shapes := Some (Reader_of (records rd))\<rparr>"
    using k7 rdf by simp
  have kk': "k = k8" using kk k9 by simp
  have c8': "cell8 w k7 = Inr (k, Some (Frame (head t)))" using c8 d8 kk' by simp
  have k8': "k = k7\<lparr>referendum := Some (Dataset t)\<rparr>" using k8 kk' by simp
  have c9': "cell9 w k =
      Inr (k, Some (Styled ''opts Shape (cmap='viridis')'' (Plot (NdOverlay items9))))"
    using c9 k9 d9 ov9 kk' by simp
  have ds': "ds = [None,
            Some (Plot (Layout [Feature LAND, Feature BORDERS,
                    Relabel ''Overlay'' (Overlay [Feature LAND, Feature BORDERS])])),
            Some (Svg (?gs ! 21)),
            Some (Plot (Shape (?gs ! 21) PlateCarree (Some ''Australia'') None)),
            Some (Styled ''opts NdOverlay [aspect=2]'' (Plot (NdOverlay dict))),
            Some (Plot (NdOverlay items6)),
            Some (Record_repr (records rd ! 0)),
            Some (Frame (head t)),
            Some (Styled ''opts Shape (cmap='viridis')'' (Plot (NdOverlay items9)))]"
    by (simp add: ds d2 d3 d4 d5 d6 d7 d8 d9 ov6 ov9)
  show ?thesis
    apply (rule exI [of _ ?gs], rule exI [of _ "records rd"], rule exI [of _ t],
        rule exI [of _ dict], rule exI [of _ items6], rule exI [of _ items9],
        rule exI [of _ ?k1], rule exI [of _ k2], rule exI [of _ k3], rule exI [of _ k6],
        rule exI [of _ k7])
    apply (intro conjI)
    apply (rule refl Reader_Inr [OF rd] read_csv_Inr [OF t] c1 c2' k2 c3' k3 c4' c5' c6' k6
        c7' k7' c8' k8' c9' ds')+
    done
qed

theorem cells_bind_and_display_witness:
  "\<exists>k ds d5 ov6 ov9. run_notebook sample_world = Inr (k, ds)
     \<and> ds = [None,
            Some (Plot (Layout [Feature LAND, Feature BORDERS,
                    Relabel ''Overlay'' (Overlay [Feature LAND, Feature BORDERS])])),
            Some (Svg 21),
            Some (Plot (Shape 21 PlateCarree (Some ''Australia'') None)),
            Some (Styled ''opts NdOverlay [aspect=2]'' (Plot (NdOverlay d5))),
            Some (Plot (NdOverlay ov6)),
            Some (Record_repr (Record 100 [(''code'', ''E06000001''), (''name'', ''Hartlepool'')])),
            Some (Frame (head sample_table)),
            Some (Styled ''opts Shape (cmap='viridis')'' (Plot (NdOverlay ov9)))]
     \<and> land_geoms k = Some sample_land
     \<and> shapes k = Some (Reader_of sample_records)
     \<and> referendum k = Some (Dataset sample_table)"
proof -
  obtain k ds where run: "run_notebook sample_world = Inr (k, ds)"
    using sample_world_runs by blast
  have n21: "sample_land ! 21 = 21" by (simp add: sample_land_def)
  have r0: "sample_records ! 0 = Record 100 [(''code'', ''E06000001''), (''name'', ''Hartlepool'')]"
    by (simp add: sample_records_def)
  from cells_bind_and_display [OF run] run n21 r0 show ?thesis
    by (auto simp: sample_world_facts)
qed

text \<open>
  Not every cell only imports, constructs wrappers around geometries or renders them: the
  eighth cell binds a dataset of the CSV table and displays a data frame, the seventh binds
  a shapefile reader and displays a record, the third displays the SVG of a bare geometry.
\<close>

theorem cells_beyond_three_kinds:
  "cell8 sample_world (sample_kernel []) =
     Inr ((sample_kernel [])\<lparr>referendum := Some (Dataset sample_table)\<rparr>,
          Some (Frame (head sample_table)))
   \<and> \<not> spec_three_kinds (sample_kernel [])
         ((sample_kernel [])\<lparr>referendum := Some (Dataset sample_table)\<rparr>)
         (Some (Frame (head sample_table)))
   \<and> cell7 sample_world ((sample_kernel [])\<lparr>shapefile := Some boundaries_shp\<rparr>) =
     Inr ((sample_kernel [])\<lparr>shapefile := Some boundaries_shp,
            shapes := Some (Reader_of sample_records)\<rparr>,
          Some (Record_repr (Record 100 [(''code'', ''E06000001''), (''name'', ''Hartlepool'')])))
   \<and> \<not> spec_three_kinds ((sample_kernel [])\<lparr>shapefile := Some boundaries_shp\<rparr>)
         ((sample_kernel [])\<lparr>shapefile := Some boundaries_shp,
            shapes := Some (Reader_of sample_records)\<rparr>)
         (Some (Record_repr (Record 100 [(''code'', ''E06000001''), (''name'', ''Hartlepool'')])))
   \<and> cell3 sample_world (sample_kernel []) = Inr (sample_kernel sample_land, Some (Svg 21))
   \<and> \<not> spec_three_kinds (sample_kernel []) (sample_kernel sample_land) (Some (Svg 21))"
proof -
  have i: "imports_done (sample_kernel [])" by (rule sample_kernel_imports)
  then have i7: "imports_done ((sample_kernel [])\<lparr>shapefile := Some boundaries_shp\<rparr>)"
    by (simp add: imports_done_def)
  have c8: "cell8 sample_world (sample_kernel []) =
     Inr ((sample_kernel [])\<lparr>referendum := Some (Dataset sample_table)\<rparr>,
          Some (Frame (head sample_table)))"
    by (simp add: cell8_done [OF i] read_csv_table [OF sample_world_facts(3)])
  have c7: "cell7 sample_world ((sample_kernel [])\<lparr>shapefile := Some boundaries_shp\<rparr>) =
     Inr ((sample_kernel [])\<lparr>shapefile := Some boundaries_shp,
            shapes := Some (Reader_of sample_records)\<rparr>,
          Some (Record_repr (Record 100 [(''code'', ''E06000001''), (''name'', ''Hartlepool'')])))"
    by (simp add: cell7_done [OF i7] Reader_shapefile [OF sample_world_facts(2)] py_getitem_0)
      (simp add: sample_records_def)
  have c3: "cell3 sample_world (sample_kernel []) = Inr (sample_kernel sample_land, Some (Svg 21))"
    by (simp add: cell3_done [OF i] sample_world_facts sample_land_length)
      (simp add: sample_kernel_def sample_land_def)
  show ?thesis
    unfolding c8 c7 c3 by (simp add: spec_three_kinds_def sample_kernel_def fresh_kernel_def)
qed

end
